theory Spec2Isabelle
  imports Complex_Main "HOL-Library.Char_ord" "HOL-Library.List_Lexorder"
begin

section \<open>Data model of \<^verbatim>\<open>src/lib/database.ts\<close>\<close>

text \<open>
  The module keeps three SQLite tables: \<^verbatim>\<open>categories\<close>, \<^verbatim>\<open>balances\<close> and
  \<^verbatim>\<open>transactions\<close>. A JavaScript \<^verbatim>\<open>number\<close> (SQLite \<^verbatim>\<open>REAL\<close>) is
  modelled as an exact real; the section on double precision adds the rounding of IEEE
  doubles to the three functions that change a balance. An \<^verbatim>\<open>INTEGER\<close> column is
  an \<open>int\<close>. A string is the list of the bytes of its UTF-8 encoding.
\<close>

datatype BalanceType = gpay | cash

type_synonym TransactionPaymentMethod = BalanceType

record Category =
  id_c :: int
  name :: string
  monthlyLimit :: "real option"

text \<open>
  \<^verbatim>\<open>NewTransactionData\<close> has the four fields a caller supplies; the entries of
  \<^verbatim>\<open>transactionsToAdd\<close> in the test-data generator add a \<^verbatim>\<open>timestamp\<close>; a
  stored \<^verbatim>\<open>Transaction\<close> adds the \<^verbatim>\<open>id\<close>; a row returned by a query with the
  join adds \<^verbatim>\<open>categoryName\<close>.
\<close>

record NewTransactionData =
  paymentMethod :: TransactionPaymentMethod
  categoryId :: int
  amount :: real
  reason :: "string option"

record TimedTransactionData = NewTransactionData +
  timestamp :: int

record Transaction = TimedTransactionData +
  id_t :: string

record JoinedTransaction = Transaction +
  categoryName :: string

text \<open>
  The database: the rows of the three tables. \<^verbatim>\<open>balances.type\<close> is
  \<^verbatim>\<open>UNIQUE\<close>, so that table is a partial map from the payment method to its amount.
\<close>

record db =
  categories :: "Category list"
  balances :: "BalanceType \<rightharpoonup> real"
  transactions :: "Transaction list"

datatype error =
    CategoryNotFound int
  | BalanceUpdateFailed BalanceType
  | DeleteRowFailed string
  | OriginalNotFound string
  | UpdateRowFailed string
  | ConstraintFailed
  | InvalidName
  | TypeError

section \<open>Strings\<close>

definition toLowerChar :: "char \<Rightarrow> char" where
  "toLowerChar c =
     (let n = (of_char c :: nat) in if 65 \<le> n \<and> n \<le> 90 then char_of (n + 32) else c)"

definition toLowerCase :: "string \<Rightarrow> string" where
  "toLowerCase s = map toLowerChar s"

text \<open>
  A string is the UTF-8 encoding of the JavaScript string. \<^verbatim>\<open>String.prototype.trim\<close>
  removes the white space and line terminator characters of ECMAScript from both ends:
  U+0009 to U+000D, U+0020, U+00A0, U+1680, U+2000 to U+200A, U+2028, U+2029, U+202F,
  U+205F, U+3000 and U+FEFF. \<open>whiteSpaceCodes\<close> lists their encodings.
\<close>

definition whiteSpaceCodes :: "nat list list" where
  "whiteSpaceCodes =
     [[0x09], [0x0A], [0x0B], [0x0C], [0x0D], [0x20],
      [0xC2, 0xA0], [0xE1, 0x9A, 0x80],
      [0xE2, 0x80, 0x80], [0xE2, 0x80, 0x81], [0xE2, 0x80, 0x82], [0xE2, 0x80, 0x83],
      [0xE2, 0x80, 0x84], [0xE2, 0x80, 0x85], [0xE2, 0x80, 0x86], [0xE2, 0x80, 0x87],
      [0xE2, 0x80, 0x88], [0xE2, 0x80, 0x89], [0xE2, 0x80, 0x8A],
      [0xE2, 0x80, 0xA8], [0xE2, 0x80, 0xA9], [0xE2, 0x80, 0xAF], [0xE2, 0x81, 0x9F],
      [0xE3, 0x80, 0x80], [0xEF, 0xBB, 0xBF]]"

definition whiteSpaces :: "string list" where
  "whiteSpaces = map (map char_of) whiteSpaceCodes"

text \<open>
  \<open>leadingLength ws s\<close> is the length of the member of \<open>ws\<close> that \<open>s\<close> starts with,
  or 0; \<open>stripLeading\<close> removes such members from the front, as often as the first
  argument allows, which \<open>trimStart\<close> and \<open>trimEnd\<close> set to the length of the string.
\<close>

definition leadingLength :: "string list \<Rightarrow> string \<Rightarrow> nat" where
  "leadingLength ws s =
     (case find (\<lambda>w. take (length w) s = w) ws of None \<Rightarrow> 0 | Some w \<Rightarrow> length w)"

primrec stripLeading :: "string list \<Rightarrow> nat \<Rightarrow> string \<Rightarrow> string" where
  "stripLeading ws 0 s = s"
| "stripLeading ws (Suc n) s =
     (let k = leadingLength ws s in if k = 0 then s else stripLeading ws n (drop k s))"

definition trimStart :: "string \<Rightarrow> string" where
  "trimStart s = stripLeading whiteSpaces (length s) s"

definition trimEnd :: "string \<Rightarrow> string" where
  "trimEnd s = rev (stripLeading (map rev whiteSpaces) (length s) (rev s))"

definition trim :: "string \<Rightarrow> string" where
  "trim s = trimEnd (trimStart s)"

text \<open>
  \<^verbatim>\<open>toLowerCase\<close> is used only in comparisons with the ASCII words "gain", "all" and
  "uncategorized". No character outside ASCII has a lower case that is one of their
  letters, so lowering the ASCII capitals decides these comparisons.
\<close>

definition isGainName :: "string \<Rightarrow> bool" where
  "isGainName n = (toLowerCase n = ''gain'')"

section \<open>The SQL statements the module issues\<close>

text \<open>\<^verbatim>\<open>SELECT name FROM categories WHERE id = ?\<close>\<close>

definition selectCategory :: "db \<Rightarrow> int \<Rightarrow> Category option" where
  "selectCategory s i = find (\<lambda>c. id_c c = i) (categories s)"

definition selectCategoryName :: "db \<Rightarrow> int \<Rightarrow> string option" where
  "selectCategoryName s i = map_option name (selectCategory s i)"

text \<open>\<^verbatim>\<open>SELECT amount FROM balances WHERE type = ?\<close>, then \<^verbatim>\<open>result?.amount ?? 0\<close>\<close>

definition currentBalanceOf :: "db \<Rightarrow> BalanceType \<Rightarrow> real" where
  "currentBalanceOf s m = (case balances s m of None \<Rightarrow> 0 | Some a \<Rightarrow> a)"

text \<open>
  \<^verbatim>\<open>UPDATE balances SET amount = ? WHERE type = ?\<close>: the new table and the number
  of rows changed.
\<close>

definition updateBalanceRow :: "db \<Rightarrow> BalanceType \<Rightarrow> real \<Rightarrow> db \<times> nat" where
  "updateBalanceRow s m v =
     (case balances s m of
        None \<Rightarrow> (s, 0)
      | Some _ \<Rightarrow> (s\<lparr>balances := (balances s)(m \<mapsto> v)\<rparr>, 1))"

text \<open>\<^verbatim>\<open>SELECT ... FROM transactions WHERE id = ?\<close>\<close>

definition selectTransaction :: "db \<Rightarrow> string \<Rightarrow> Transaction option" where
  "selectTransaction s i = find (\<lambda>t. id_t t = i) (transactions s)"

text \<open>
  \<^verbatim>\<open>INSERT INTO transactions ...\<close>: the primary key \<^verbatim>\<open>id\<close> must be new and
  the foreign key \<^verbatim>\<open>categoryId\<close> must reference a category
  (\<^verbatim>\<open>PRAGMA foreign_keys = ON\<close>).
\<close>

definition insertTransaction :: "db \<Rightarrow> Transaction \<Rightarrow> error + db" where
  "insertTransaction s t =
     (if id_t t \<in> set (map id_t (transactions s)) then Inl ConstraintFailed
      else if selectCategory s (categoryId t) = None then Inl ConstraintFailed
      else Inr (s\<lparr>transactions := transactions s @ [t]\<rparr>))"

text \<open>\<^verbatim>\<open>DELETE FROM transactions WHERE id = ?\<close>\<close>

definition deleteTransactionRow :: "db \<Rightarrow> string \<Rightarrow> db \<times> nat" where
  "deleteTransactionRow s i =
     (s\<lparr>transactions := filter (\<lambda>t. id_t t \<noteq> i) (transactions s)\<rparr>,
      length (filter (\<lambda>t. id_t t = i) (transactions s)))"

text \<open>
  \<^verbatim>\<open>UPDATE transactions SET amount = ?, reason = ?, paymentMethod = ?, categoryId = ?,
  timestamp = ? WHERE id = ?\<close> with \<^verbatim>\<open>data.reason || null\<close> for the reason
  (an empty reason is stored as \<^verbatim>\<open>NULL\<close>).
\<close>

definition reasonOrNull :: "string option \<Rightarrow> string option" where
  "reasonOrNull r = (case r of None \<Rightarrow> None | Some x \<Rightarrow> if x = [] then None else Some x)"

definition setTransaction :: "NewTransactionData \<Rightarrow> int \<Rightarrow> Transaction \<Rightarrow> Transaction" where
  "setTransaction d now t =
     t\<lparr>amount := amount d, reason := reasonOrNull (reason d),
       paymentMethod := paymentMethod d, categoryId := categoryId d, timestamp := now\<rparr>"

definition updateTransactionRow ::
  "db \<Rightarrow> string \<Rightarrow> NewTransactionData \<Rightarrow> int \<Rightarrow> error + (db \<times> nat)" where
  "updateTransactionRow s i d now =
     (if selectTransaction s i \<noteq> None \<and> selectCategory s (categoryId d) = None
      then Inl ConstraintFailed
      else Inr (s\<lparr>transactions :=
                    map (\<lambda>t. if id_t t = i then setTransaction d now t else t) (transactions s)\<rparr>,
                length (filter (\<lambda>t. id_t t = i) (transactions s))))"

section \<open>Balance functions\<close>

definition getBalance :: "db \<Rightarrow> BalanceType \<Rightarrow> real" where
  "getBalance s m = currentBalanceOf s m"

definition updateBalance :: "db \<Rightarrow> BalanceType \<Rightarrow> real \<Rightarrow> db \<times> bool" where
  "updateBalance s m newAmount =
     (let (s', changes) = updateBalanceRow s m newAmount in (s', changes > 0))"

section \<open>Transaction functions\<close>

text \<open>
  Each function opens an SQL transaction, runs the body of its \<^verbatim>\<open>try\<close> block and
  commits; a \<^verbatim>\<open>throw\<close> in the body is a left value, and the \<^verbatim>\<open>catch\<close> block
  rolls back, which gives back the database as it was. \<^verbatim>\<open>uuidv4()\<close> and
  \<^verbatim>\<open>Date.now()\<close> are arguments of the model.
\<close>

definition addTransaction_body ::
  "db \<Rightarrow> NewTransactionData \<Rightarrow> string \<Rightarrow> int \<Rightarrow> error + db" where
  "addTransaction_body s d newId now =
     (case selectCategoryName s (categoryId d) of
        None \<Rightarrow> Inl (CategoryNotFound (categoryId d))
      | Some catName \<Rightarrow>
          let isGain = isGainName catName;
              currentBalance = currentBalanceOf s (paymentMethod d);
              newBalance = (if isGain then currentBalance + amount d
                            else currentBalance - amount d);
              (s1, changes) = updateBalanceRow s (paymentMethod d) newBalance
          in if changes = 0 then Inl (BalanceUpdateFailed (paymentMethod d))
             else insertTransaction s1
                    \<lparr>paymentMethod = paymentMethod d, categoryId = categoryId d,
                     amount = amount d, reason = reason d, timestamp = now, id_t = newId\<rparr>)"

definition addTransaction ::
  "db \<Rightarrow> NewTransactionData \<Rightarrow> string \<Rightarrow> int \<Rightarrow> db \<times> Transaction option" where
  "addTransaction s d newId now =
     (case addTransaction_body s d newId now of
        Inl e \<Rightarrow> (s, None)
      | Inr s' \<Rightarrow>
          (s', Some \<lparr>paymentMethod = paymentMethod d, categoryId = categoryId d,
                     amount = amount d, reason = reason d, timestamp = now, id_t = newId\<rparr>))"

text \<open>
  \<^verbatim>\<open>deleteTransaction\<close>: the first query joins the transaction with its category,
  so it finds nothing when either is missing; that case rolls back and returns false
  before the \<^verbatim>\<open>catch\<close> block is involved.
\<close>

definition selectTransactionWithCategory :: "db \<Rightarrow> string \<Rightarrow> (Transaction \<times> string) option" where
  "selectTransactionWithCategory s i =
     (case selectTransaction s i of
        None \<Rightarrow> None
      | Some t \<Rightarrow>
          (case selectCategoryName s (categoryId t) of
             None \<Rightarrow> None
           | Some n \<Rightarrow> Some (t, n)))"

definition deleteTransaction_body :: "db \<Rightarrow> string \<Rightarrow> Transaction \<Rightarrow> string \<Rightarrow> error + db" where
  "deleteTransaction_body s transactionId transactionToDelete catName =
     (let (s1, deleted) = deleteTransactionRow s transactionId
      in if deleted = 0 then Inl (DeleteRowFailed transactionId)
         else
           let currentBalance = currentBalanceOf s1 (paymentMethod transactionToDelete);
               isGain = isGainName catName;
               newBalance = (if isGain then currentBalance - amount transactionToDelete
                             else currentBalance + amount transactionToDelete);
               (s2, changes) = updateBalanceRow s1 (paymentMethod transactionToDelete) newBalance
           in if changes = 0 then Inl (BalanceUpdateFailed (paymentMethod transactionToDelete))
              else Inr s2)"

definition deleteTransaction :: "db \<Rightarrow> string \<Rightarrow> db \<times> bool" where
  "deleteTransaction s transactionId =
     (case selectTransactionWithCategory s transactionId of
        None \<Rightarrow> (s, False)
      | Some (t, catName) \<Rightarrow>
          (case deleteTransaction_body s transactionId t catName of
             Inl e \<Rightarrow> (s, False)
           | Inr s' \<Rightarrow> (s', True)))"

text \<open>
  \<^verbatim>\<open>updateTransaction\<close>: \<^verbatim>\<open>oldCategory?.name.toLowerCase() === 'gain'\<close> is false
  when the old category is missing. The balance updates of this function do not look at
  the number of rows changed.
\<close>

definition wasGainOf :: "string option \<Rightarrow> bool" where
  "wasGainOf oldCategory = (case oldCategory of None \<Rightarrow> False | Some n \<Rightarrow> isGainName n)"

definition updateTransaction_body ::
  "db \<Rightarrow> string \<Rightarrow> NewTransactionData \<Rightarrow> int \<Rightarrow> error + db" where
  "updateTransaction_body s i d now =
     (case selectTransaction s i of
        None \<Rightarrow> Inl (OriginalNotFound i)
      | Some oldTransaction \<Rightarrow>
          (case selectCategoryName s (categoryId d) of
             None \<Rightarrow> Inl (CategoryNotFound (categoryId d))
           | Some newCategory \<Rightarrow>
               let wasGain = wasGainOf (selectCategoryName s (categoryId oldTransaction));
                   isGain = isGainName newCategory;
                   s2 =
                     (if paymentMethod oldTransaction \<noteq> paymentMethod d then
                        let revertAmount = (if wasGain then - amount oldTransaction
                                            else amount oldTransaction);
                            oldBalance = currentBalanceOf s (paymentMethod oldTransaction);
                            s1 = fst (updateBalanceRow s (paymentMethod oldTransaction)
                                        (oldBalance + revertAmount));
                            applyAmount = (if isGain then amount d else - amount d);
                            newBalanceValue = currentBalanceOf s1 (paymentMethod d)
                        in fst (updateBalanceRow s1 (paymentMethod d)
                                  (newBalanceValue + applyAmount))
                      else
                        let oldEffect = (if wasGain then amount oldTransaction
                                         else - amount oldTransaction);
                            newEffect = (if isGain then amount d else - amount d);
                            balanceAdjustment = newEffect - oldEffect;
                            currentBalance = currentBalanceOf s (paymentMethod d)
                        in fst (updateBalanceRow s (paymentMethod d)
                                  (currentBalance + balanceAdjustment)))
               in (case updateTransactionRow s2 i d now of
                     Inl e \<Rightarrow> Inl e
                   | Inr (s3, changes) \<Rightarrow>
                       if changes = 0 then Inl (UpdateRowFailed i) else Inr s3)))"

definition updateTransaction :: "db \<Rightarrow> string \<Rightarrow> NewTransactionData \<Rightarrow> int \<Rightarrow> db \<times> bool" where
  "updateTransaction s i d now =
     (case updateTransaction_body s i d now of
        Inl e \<Rightarrow> (s, False)
      | Inr s' \<Rightarrow> (s', True))"

section \<open>Category functions\<close>


text \<open>
  \<^verbatim>\<open>updateCategory\<close>: the two \<^verbatim>\<open>throw\<close>s on the trimmed name, then
  \<^verbatim>\<open>UPDATE categories SET name = ?, monthlyLimit = ? WHERE id = ?\<close>. The statement
  changes no row when the id is unknown, and fails on the \<^verbatim>\<open>UNIQUE\<close> constraint
  when another row has the new name. Every failure returns false.
\<close>

definition updateCategory_body :: "db \<Rightarrow> int \<Rightarrow> string \<Rightarrow> real option \<Rightarrow> error + (db \<times> nat)" where
  "updateCategory_body s i nm lmt =
     (let trimmedName = trim nm
      in if trimmedName = [] then Inl InvalidName
         else if toLowerCase trimmedName = ''all'' then Inl InvalidName
         else if selectCategory s i \<noteq> None \<and>
                 list_ex (\<lambda>c. id_c c \<noteq> i \<and> name c = trimmedName) (categories s)
         then Inl ConstraintFailed
         else Inr (s\<lparr>categories :=
                       map (\<lambda>c. if id_c c = i then c\<lparr>name := trimmedName, monthlyLimit := lmt\<rparr>
                                 else c) (categories s)\<rparr>,
                   length (filter (\<lambda>c. id_c c = i) (categories s))))"

definition updateCategory :: "db \<Rightarrow> int \<Rightarrow> string \<Rightarrow> real option \<Rightarrow> db \<times> bool" where
  "updateCategory s i nm lmt =
     (case updateCategory_body s i nm lmt of
        Inl e \<Rightarrow> (s, False)
      | Inr (s', changes) \<Rightarrow> (s', changes > 0))"

text \<open>
  \<^verbatim>\<open>deleteCategory\<close>: \<^verbatim>\<open>DELETE FROM categories WHERE id = ?\<close>. The foreign key
  of \<^verbatim>\<open>transactions.categoryId\<close> is \<^verbatim>\<open>ON DELETE RESTRICT\<close>, so the statement
  fails when a transaction references the row to delete.
\<close>

definition deleteCategory_body :: "db \<Rightarrow> int \<Rightarrow> error + (db \<times> nat)" where
  "deleteCategory_body s i =
     (if selectCategory s i \<noteq> None \<and> list_ex (\<lambda>t. categoryId t = i) (transactions s)
      then Inl ConstraintFailed
      else Inr (s\<lparr>categories := filter (\<lambda>c. id_c c \<noteq> i) (categories s)\<rparr>,
                length (filter (\<lambda>c. id_c c = i) (categories s))))"

definition deleteCategory :: "db \<Rightarrow> int \<Rightarrow> db \<times> bool" where
  "deleteCategory s i =
     (case deleteCategory_body s i of
        Inl e \<Rightarrow> (s, False)
      | Inr (s', changes) \<Rightarrow> if changes > 0 then (s', True) else (s, False))"

section \<open>The category screen (\<^verbatim>\<open>ManageCategoriesScreen\<close>)\<close>

text \<open>
  The screen that calls \<^verbatim>\<open>updateCategory\<close> and \<^verbatim>\<open>deleteCategory\<close>. Its
  handlers return early, with an alert, for the two default categories.
  \<^verbatim>\<open>handleDelete\<close> asks for confirmation; \<open>confirmed\<close> says that the user
  pressed "Delete".
\<close>

record ManageCategoriesState =
  editingCategory :: "Category option"
  isModalVisible :: bool

definition isDefaultCategory :: "Category \<Rightarrow> bool" where
  "isDefaultCategory c =
     (toLowerCase (name c) = ''uncategorized'' \<or> toLowerCase (name c) = ''gain'')"

definition openEditModal :: "ManageCategoriesState \<Rightarrow> Category \<Rightarrow> ManageCategoriesState" where
  "openEditModal ui c =
     (if isDefaultCategory c then ui
      else ui\<lparr>editingCategory := Some c, isModalVisible := True\<rparr>)"

definition handleDelete :: "db \<Rightarrow> Category \<Rightarrow> bool \<Rightarrow> db" where
  "handleDelete s c confirmed =
     (if isDefaultCategory c then s
      else if confirmed then fst (deleteCategory s (id_c c))
      else s)"

section \<open>Dates\<close>

text \<open>
  The JavaScript \<^verbatim>\<open>Date\<close> of the runtime; a \<^verbatim>\<open>Date\<close> is its time value in
  milliseconds since the epoch. The local time zone is the function \<^verbatim>\<open>LocalTZA\<close> of
  ECMAScript: \<open>tz t True\<close> is the offset of local time from UTC, in milliseconds, at the
  UTC time \<open>t\<close>, and \<open>tz t False\<close> is the offset at the local time \<open>t\<close>; the offset
  changes where the zone changes to and from daylight saving time.
  \<open>setHours\<close> replaces the local time of day: the date goes to local time, keeps its day,
  takes the new time, and goes back to UTC. \<open>makeDate\<close> is
  \<^verbatim>\<open>new Date(year, monthIndex, day).getTime()\<close>, where a month index outside 0..11 and
  a day outside the month carry over, and a year 0..99 is in the 1900s.
\<close>

type_synonym timeZone = "int \<Rightarrow> bool \<Rightarrow> int"

definition msPerDay :: int where
  "msPerDay = 24 * 60 * 60 * 1000"

definition setHours :: "timeZone \<Rightarrow> int \<Rightarrow> int \<Rightarrow> int \<Rightarrow> int \<Rightarrow> int \<Rightarrow> int" where
  "setHours tz d h mi sec ms =
     (let localTime = d + tz d True;
          newLocal = (localTime div msPerDay) * msPerDay + ((h * 60 + mi) * 60 + sec) * 1000 + ms
      in newLocal - tz newLocal False)"

definition daysFromCivil :: "int \<Rightarrow> int \<Rightarrow> int \<Rightarrow> int" where
  "daysFromCivil y m d =
     (let y' = (if m \<le> 2 then y - 1 else y);
          era = y' div 400;
          yoe = y' - era * 400;
          doy = (153 * (if m > 2 then m - 3 else m + 9) + 2) div 5 + d - 1;
          doe = yoe * 365 + yoe div 4 - yoe div 100 + doy
      in era * 146097 + doe - 719468)"

definition makeDate :: "timeZone \<Rightarrow> int \<Rightarrow> int \<Rightarrow> int \<Rightarrow> int" where
  "makeDate tz yr monthIndex day =
     (let y0 = (if 0 \<le> yr \<and> yr \<le> 99 then 1900 + yr else yr);
          y = y0 + monthIndex div 12;
          m = monthIndex mod 12 + 1;
          localTime = daysFromCivil y m day * msPerDay
      in localTime - tz localTime False)"

section \<open>Queries\<close>

datatype PaymentMethodFilter = AllMethods | Method TransactionPaymentMethod

record TransactionFilters =
  startDate :: "int option"
  endDate :: "int option"
  paymentMethod_f :: "PaymentMethodFilter option"
  category :: "string option"
  searchText :: "string option"
  year :: "int option"
  month :: "int option"
  limit :: "int option"

text \<open>
  SQLite's \<^verbatim>\<open>LIKE\<close>: \<^verbatim>\<open>%\<close> matches any run of characters, \<^verbatim>\<open>_\<close> matches one
  character, and ASCII letters match without regard to case. The pattern comes first. A
  character is one byte followed by its UTF-8 continuation bytes (0x80 to 0xBF), so both
  wildcards move over whole characters.
\<close>

definition isContinuation :: "char \<Rightarrow> bool" where
  "isContinuation c = (let n = (of_char c :: nat) in 128 \<le> n \<and> n < 192)"

function like :: "string \<Rightarrow> string \<Rightarrow> bool" where
  "like [] [] = True"
| "like [] (c # cs) = False"
| "like (p # ps) [] = (p = CHR ''%'' \<and> like ps [])"
| "like (p # ps) (c # cs) =
     (if p = CHR ''%'' then like ps (c # cs) \<or> like (p # ps) (dropWhile isContinuation cs)
      else if p = CHR ''_'' then like ps (dropWhile isContinuation cs)
      else toLowerChar p = toLowerChar c \<and> like ps cs)"
  by pat_completeness auto
termination
  by (relation "measure (\<lambda>(p, t). length p + length t)")
     (auto simp: less_Suc_eq_le intro: le_SucI length_dropWhile_le)

text \<open>
  \<^verbatim>\<open>FROM transactions t JOIN categories c ON t.categoryId = c.id\<close>: the
  transactions whose category exists, each with the name of its category
  (\<^verbatim>\<open>categories.id\<close> is the primary key, so a transaction joins with one row at most).
\<close>

definition joinCategory :: "db \<Rightarrow> Transaction \<Rightarrow> JoinedTransaction list" where
  "joinCategory s t =
     (case selectCategoryName s (categoryId t) of
        None \<Rightarrow> []
      | Some n \<Rightarrow>
          [\<lparr>paymentMethod = paymentMethod t, categoryId = categoryId t, amount = amount t,
            reason = reason t, timestamp = timestamp t, id_t = id_t t, categoryName = n\<rparr>])"

definition joinedTransactions :: "db \<Rightarrow> JoinedTransaction list" where
  "joinedTransactions s = concat (map (joinCategory s) (transactions s))"

text \<open>
  The conditions that \<^verbatim>\<open>getAllTransactions\<close> pushes on \<^verbatim>\<open>whereClauses\<close>, in the
  order of the source. The year/month condition hangs on the \<^verbatim>\<open>else\<close> of the
  end-date test. A comparison of \<^verbatim>\<open>t.reason\<close> with \<^verbatim>\<open>LIKE\<close> is not true of a
  \<^verbatim>\<open>NULL\<close> reason.
\<close>

definition startDateClause :: "timeZone \<Rightarrow> TransactionFilters \<Rightarrow> (JoinedTransaction \<Rightarrow> bool) list" where
  "startDateClause tz f =
     (case startDate f of
        None \<Rightarrow> []
      | Some d \<Rightarrow> [\<lambda>r. timestamp r \<ge> setHours tz d 0 0 0 0])"

definition endDateClause :: "timeZone \<Rightarrow> TransactionFilters \<Rightarrow> (JoinedTransaction \<Rightarrow> bool) list" where
  "endDateClause tz f =
     (case endDate f of
        Some d \<Rightarrow> [\<lambda>r. timestamp r \<le> setHours tz d 23 59 59 999]
      | None \<Rightarrow>
          (case (year f, month f) of
             (Some y, Some m) \<Rightarrow>
               if y \<noteq> 0 \<and> m \<noteq> 0 then
                 let startTimestamp = makeDate tz y (m - 1) 1;
                     endTimestamp = makeDate tz y m 0 + (24 * 60 * 60 * 1000 - 1)
                 in [\<lambda>r. timestamp r \<ge> startTimestamp \<and> timestamp r \<le> endTimestamp]
               else []
           | _ \<Rightarrow> []))"

definition paymentMethodClause :: "TransactionFilters \<Rightarrow> (JoinedTransaction \<Rightarrow> bool) list" where
  "paymentMethodClause f =
     (case paymentMethod_f f of
        Some (Method m) \<Rightarrow> [\<lambda>r. paymentMethod r = m]
      | _ \<Rightarrow> [])"

definition categoryClause :: "TransactionFilters \<Rightarrow> (JoinedTransaction \<Rightarrow> bool) list" where
  "categoryClause f =
     (case category f of
        None \<Rightarrow> []
      | Some c \<Rightarrow> if c \<noteq> [] \<and> c \<noteq> ''all'' then [\<lambda>r. categoryName r = c] else [])"

definition searchTextClause :: "TransactionFilters \<Rightarrow> (JoinedTransaction \<Rightarrow> bool) list" where
  "searchTextClause f =
     (case searchText f of
        None \<Rightarrow> []
      | Some x \<Rightarrow>
          if x \<noteq> [] \<and> trim x \<noteq> [] then
            [\<lambda>r. case reason r of
                    None \<Rightarrow> False
                  | Some rs \<Rightarrow> like (''%'' @ trim x @ ''%'') rs]
          else [])"

definition whereClauses :: "timeZone \<Rightarrow> TransactionFilters \<Rightarrow> (JoinedTransaction \<Rightarrow> bool) list" where
  "whereClauses tz f =
     startDateClause tz f @ endDateClause tz f @ paymentMethodClause f @
     categoryClause f @ searchTextClause f"

text \<open>
  \<^verbatim>\<open>ORDER BY t.timestamp DESC\<close>, then \<^verbatim>\<open>LIMIT ?\<close> when
  \<^verbatim>\<open>filters.limit && filters.limit > 0\<close>. SQL leaves the order of rows with equal
  timestamps open; the model keeps them in table order.
\<close>

definition getAllTransactions :: "timeZone \<Rightarrow> db \<Rightarrow> TransactionFilters \<Rightarrow> JoinedTransaction list" where
  "getAllTransactions tz s f =
     (let matching = filter (\<lambda>r. list_all (\<lambda>p. p r) (whereClauses tz f)) (joinedTransactions s);
          ordered = sort_key (\<lambda>r. - timestamp r) matching
      in case limit f of
           None \<Rightarrow> ordered
         | Some n \<Rightarrow> if n \<noteq> 0 \<and> n > 0 then take (nat n) ordered else ordered)"

section \<open>Test data generation\<close>

















section \<open>The ledger invariant\<close>

text \<open>
  The effect of a transaction on the balance of its payment method: its amount when the
  name of its category is "Gain" without regard to case, minus its amount otherwise.
\<close>

definition effect :: "db \<Rightarrow> Transaction \<Rightarrow> real" where
  "effect s t =
     (if wasGainOf (selectCategoryName s (categoryId t)) then amount t else - amount t)"

definition ledgerSum :: "db \<Rightarrow> BalanceType \<Rightarrow> real" where
  "ledgerSum s m =
     sum_list (map (effect s) (filter (\<lambda>t. paymentMethod t = m) (transactions s)))"







section \<open>Double precision\<close>















section \<open>The database after initialisation\<close>

text \<open>
  \<^verbatim>\<open>performInitialization\<close> creates the tables, inserts \<^verbatim>\<open>DEFAULT_CATEGORIES\<close>
  in order (the ids count from 1) and the two balance rows with amount 0.
\<close>

definition DEFAULT_CATEGORIES :: "Category list" where
  "DEFAULT_CATEGORIES =
     [\<lparr>id_c = 1, name = ''Uncategorized'', monthlyLimit = None\<rparr>,
      \<lparr>id_c = 2, name = ''Gain'', monthlyLimit = None\<rparr>,
      \<lparr>id_c = 3, name = ''Groceries'', monthlyLimit = None\<rparr>,
      \<lparr>id_c = 4, name = ''Transport'', monthlyLimit = None\<rparr>,
      \<lparr>id_c = 5, name = ''Bills'', monthlyLimit = None\<rparr>,
      \<lparr>id_c = 6, name = ''Entertainment'', monthlyLimit = None\<rparr>,
      \<lparr>id_c = 7, name = ''Other Expense'', monthlyLimit = None\<rparr>]"

definition initialDb :: db where
  "initialDb =
     \<lparr>categories = DEFAULT_CATEGORIES,
      balances = [gpay \<mapsto> 0, cash \<mapsto> 0],
      transactions = []\<rparr>"

section \<open>Example data\<close>

text \<open>A database with three transactions, used to run the functions on concrete input.\<close>

definition exampleTransactions :: "Transaction list" where
  "exampleTransactions =
     [\<lparr>paymentMethod = gpay, categoryId = 3, amount = 100, reason = Some ''Milk'',
       timestamp = 1000, id_t = ''t1''\<rparr>,
      \<lparr>paymentMethod = gpay, categoryId = 2, amount = 300, reason = Some ''Salary'',
       timestamp = 86402000, id_t = ''t2''\<rparr>,
      \<lparr>paymentMethod = cash, categoryId = 5, amount = 50, reason = None,
       timestamp = 172803000, id_t = ''t3''\<rparr>]"

definition exampleDb :: db where
  "exampleDb =
     \<lparr>categories = DEFAULT_CATEGORIES,
      balances = [gpay \<mapsto> 200, cash \<mapsto> - 50],
      transactions = exampleTransactions\<rparr>"

text \<open>
  What the filters of a query ask of a row, filter by filter: a date bound, a payment method
  other than "all", a category name other than "all", a search text that is not blank.
\<close>

definition matchesFilters :: "timeZone \<Rightarrow> TransactionFilters \<Rightarrow> JoinedTransaction \<Rightarrow> bool" where
  "matchesFilters tz f r =
     ((case startDate f of None \<Rightarrow> True | Some d \<Rightarrow> setHours tz d 0 0 0 0 \<le> timestamp r) \<and>
      (case endDate f of None \<Rightarrow> True | Some d \<Rightarrow> timestamp r \<le> setHours tz d 23 59 59 999) \<and>
      (case paymentMethod_f f of
         None \<Rightarrow> True | Some AllMethods \<Rightarrow> True | Some (Method m) \<Rightarrow> paymentMethod r = m) \<and>
      (case category f of
         None \<Rightarrow> True
       | Some c \<Rightarrow> c = [] \<or> c = ''all'' \<or> categoryName r = c) \<and>
      (case searchText f of
         None \<Rightarrow> True
       | Some x \<Rightarrow> trim x = [] \<or>
           (case reason r of None \<Rightarrow> False | Some rs \<Rightarrow> like (''%'' @ trim x @ ''%'') rs)))"

text \<open>
  Filters, a sequence of ids and two time zones for the examples: UTC, and the zone of New
  York around 10 March 2024, where local time jumps from 02:00 (UTC-5) to 03:00 (UTC-4) at
  07:00 UTC; a local time in the skipped hour counts with the offset before the change.
\<close>

definition utcZone :: timeZone where
  "utcZone t isUTC = 0"

definition newYorkZone :: timeZone where
  "newYorkZone t isUTC =
     (if isUTC then (if t < 1710054000000 then - 18000000 else - 14400000)
      else (if t < 1710039600000 then - 18000000 else - 14400000))"

definition exampleFilters :: TransactionFilters where
  "exampleFilters =
     \<lparr>startDate = Some 5000, endDate = Some 5000, paymentMethod_f = Some AllMethods,
      category = Some ''Groceries'', searchText = Some '' mil '', year = None, month = None,
      limit = None\<rparr>"






section \<open>Facts about the statements and the three mutating functions\<close>






lemma effect_categories: "categories s' = categories s \<Longrightarrow> effect s' = effect s"
  by (rule ext) (simp add: effect_def selectCategoryName_def selectCategory_def)


lemma ledgerSum_cong:
  "categories s' = categories s \<Longrightarrow> transactions s' = transactions s \<Longrightarrow>
     ledgerSum s' m = ledgerSum s m"
  using effect_categories [of s' s] by (simp add: ledgerSum_def)








lemma setTransaction_fields [simp]:
  "id_t (setTransaction d now t) = id_t t"
  "categoryId (setTransaction d now t) = categoryId d"
  "paymentMethod (setTransaction d now t) = paymentMethod d"
  "amount (setTransaction d now t) = amount d"
  by (simp_all add: setTransaction_def)














lemma select_balances_update [simp]:
  "selectCategory (s\<lparr>balances := bs\<rparr>) = selectCategory s"
  "selectCategoryName (s\<lparr>balances := bs\<rparr>) = selectCategoryName s"
  "selectTransaction (s\<lparr>balances := bs\<rparr>) = selectTransaction s"
  by (rule ext, simp add: selectCategory_def selectCategoryName_def selectTransaction_def)+


lemma isGainName_Gain: "isGainName ''Gain''"
  by code_simp

lemma not_isGainName_defaults:
  "\<not> isGainName ''Uncategorized''" "\<not> isGainName ''Groceries''" "\<not> isGainName ''Transport''"
  "\<not> isGainName ''Bills''" "\<not> isGainName ''Entertainment''" "\<not> isGainName ''Other Expense''"
  by code_simp+

lemmas example_defs = exampleDb_def exampleTransactions_def DEFAULT_CATEGORIES_def
  selectCategoryName_def selectCategory_def selectTransaction_def





section \<open>Facts about queries, the test data generator and the category functions\<close>

lemma whereClauses_limit [simp]: "whereClauses tz (f\<lparr>limit := l\<rparr>) = whereClauses tz f"
  by (simp add: whereClauses_def startDateClause_def endDateClause_def paymentMethodClause_def
      categoryClause_def searchTextClause_def split: option.splits)

lemma set_getAllTransactions_subset:
  "set (getAllTransactions tz s f) \<subseteq>
     {r \<in> set (joinedTransactions s). list_all (\<lambda>p. p r) (whereClauses tz f)}"
  by (auto simp: getAllTransactions_def Let_def split: option.splits dest: in_set_takeD)

lemma set_getAllTransactions_no_limit:
  "limit f = None \<or> (\<exists>n. limit f = Some n \<and> n \<le> 0) \<Longrightarrow>
   set (getAllTransactions tz s f) =
     {r \<in> set (joinedTransactions s). list_all (\<lambda>p. p r) (whereClauses tz f)}"
  by (auto simp: getAllTransactions_def Let_def split: option.splits)

lemma joinCategory_iff:
  "r \<in> set (joinCategory s t) \<longleftrightarrow>
     (selectCategoryName s (categoryId t) = Some (categoryName r) \<and>
      r = \<lparr>paymentMethod = paymentMethod t, categoryId = categoryId t, amount = amount t,
           reason = reason t, timestamp = timestamp t, id_t = id_t t,
           categoryName = categoryName r\<rparr>)"
proof (cases "selectCategoryName s (categoryId t)")
  case None
  then show ?thesis by (simp add: joinCategory_def)
next
  case (Some n)
  then show ?thesis by (auto simp: joinCategory_def)
qed

lemma joinedTransactions_iff:
  "r \<in> set (joinedTransactions s) \<longleftrightarrow>
     (\<exists>t \<in> set (transactions s).
        selectCategoryName s (categoryId t) = Some (categoryName r) \<and>
        r = \<lparr>paymentMethod = paymentMethod t, categoryId = categoryId t, amount = amount t,
             reason = reason t, timestamp = timestamp t, id_t = id_t t,
             categoryName = categoryName r\<rparr>)"
  by (simp add: joinedTransactions_def joinCategory_iff)

lemma sorted_getAllTransactions:
  "sorted_wrt (\<lambda>a b. timestamp b \<le> timestamp a) (getAllTransactions tz s f)"
proof -
  have key: "sorted_wrt (\<lambda>a b. timestamp b \<le> timestamp a) (sort_key (\<lambda>r. - timestamp r) xs)"
    for xs :: "JoinedTransaction list"
  proof -
    have "sorted (map (\<lambda>r. - timestamp r) (sort_key (\<lambda>r. - timestamp r) xs))"
      by (rule sorted_sort_key)
    then show ?thesis by (simp add: sorted_map)
  qed
  have tk: "sorted_wrt P (take n xs)" if "sorted_wrt P xs" for P n and xs :: "JoinedTransaction list"
    using that by (metis append_take_drop_id sorted_wrt_append)
  show ?thesis
    by (auto simp: getAllTransactions_def Let_def key tk split: option.splits)
qed

lemma trim_Nil [simp]: "trim [] = []"
  by (simp add: trim_def trimStart_def trimEnd_def)

lemma startDateClause_iff:
  "list_all (\<lambda>p. p r) (startDateClause tz f) \<longleftrightarrow>
     (case startDate f of None \<Rightarrow> True | Some d \<Rightarrow> setHours tz d 0 0 0 0 \<le> timestamp r)"
  by (simp add: startDateClause_def split: option.splits)

lemma endDateClause_imp:
  "list_all (\<lambda>p. p r) (endDateClause tz f) \<Longrightarrow>
     (case endDate f of None \<Rightarrow> True | Some d \<Rightarrow> timestamp r \<le> setHours tz d 23 59 59 999)"
  by (cases "endDate f") (simp_all add: endDateClause_def)

lemma endDateClause_iff:
  assumes "year f = None \<or> month f = None \<or> endDate f \<noteq> None"
  shows "list_all (\<lambda>p. p r) (endDateClause tz f) \<longleftrightarrow>
     (case endDate f of None \<Rightarrow> True | Some d \<Rightarrow> timestamp r \<le> setHours tz d 23 59 59 999)"
proof (cases "endDate f")
  case None
  with assms have "year f = None \<or> month f = None" by simp
  with None show ?thesis
    by (auto simp: endDateClause_def split: option.splits)
next
  case (Some d)
  then show ?thesis by (simp add: endDateClause_def)
qed

lemma paymentMethodClause_iff:
  "list_all (\<lambda>p. p r) (paymentMethodClause f) \<longleftrightarrow>
     (case paymentMethod_f f of
         None \<Rightarrow> True | Some AllMethods \<Rightarrow> True | Some (Method m) \<Rightarrow> paymentMethod r = m)"
  by (simp add: paymentMethodClause_def split: option.splits PaymentMethodFilter.splits)

lemma categoryClause_iff:
  "list_all (\<lambda>p. p r) (categoryClause f) \<longleftrightarrow>
     (case category f of
         None \<Rightarrow> True
       | Some c \<Rightarrow> c = [] \<or> c = ''all'' \<or> categoryName r = c)"
  by (simp add: categoryClause_def split: option.splits)

lemma searchTextClause_iff:
  "list_all (\<lambda>p. p r) (searchTextClause f) \<longleftrightarrow>
     (case searchText f of
         None \<Rightarrow> True
       | Some x \<Rightarrow> trim x = [] \<or>
           (case reason r of None \<Rightarrow> False | Some rs \<Rightarrow> like (''%'' @ trim x @ ''%'') rs))"
proof (cases "searchText f")
  case None
  then show ?thesis by (simp add: searchTextClause_def)
next
  case (Some x)
  then show ?thesis by (cases "x = []") (simp_all add: searchTextClause_def)
qed

lemma whereClauses_imp_matches:
  "list_all (\<lambda>p. p r) (whereClauses tz f) \<Longrightarrow> matchesFilters tz f r"
  unfolding whereClauses_def matchesFilters_def list_all_append
  using endDateClause_imp [of r tz f]
  by (simp only: startDateClause_iff paymentMethodClause_iff categoryClause_iff
      searchTextClause_iff)

lemma matches_imp_whereClauses:
  "year f = None \<or> month f = None \<or> endDate f \<noteq> None \<Longrightarrow> matchesFilters tz f r \<Longrightarrow>
     list_all (\<lambda>p. p r) (whereClauses tz f)"
  unfolding whereClauses_def matchesFilters_def list_all_append
  by (simp only: startDateClause_iff endDateClause_iff paymentMethodClause_iff categoryClause_iff
      searchTextClause_iff)

lemma joined_categoryName:
  assumes "r \<in> set (joinedTransactions s)"
  shows "selectCategoryName s (categoryId r) = Some (categoryName r)"
proof -
  from assms obtain t where t: "t \<in> set (transactions s)" and r: "r \<in> set (joinCategory s t)"
    by (auto simp: joinedTransactions_def)
  show ?thesis
  proof (cases "selectCategoryName s (categoryId t)")
    case None
    with r show ?thesis by (simp add: joinCategory_def)
  next
    case (Some n)
    with r show ?thesis by (simp add: joinCategory_def)
  qed
qed

lemma getAllTransactions_sound:
  assumes "r \<in> set (getAllTransactions tz s f)"
  shows "r \<in> set (joinedTransactions s) \<and>
      selectCategoryName s (categoryId r) = Some (categoryName r) \<and>
      matchesFilters tz f r"
proof -
  from assms set_getAllTransactions_subset [of tz s f]
  have j: "r \<in> set (joinedTransactions s)"
    and w: "list_all (\<lambda>p. p r) (whereClauses tz f)" by auto
  from j joined_categoryName [OF j] whereClauses_imp_matches [OF w] show ?thesis by simp
qed

lemma getAllTransactions_complete:
  assumes "limit f = None" and "year f = None \<or> month f = None \<or> endDate f \<noteq> None"
  shows "set (getAllTransactions tz s f) =
        {r \<in> set (joinedTransactions s). matchesFilters tz f r}"
proof -
  have "list_all (\<lambda>p. p r) (whereClauses tz f) \<longleftrightarrow> matchesFilters tz f r" for r
    using whereClauses_imp_matches [of r tz f] matches_imp_whereClauses [OF assms(2), of tz r]
    by blast
  with set_getAllTransactions_no_limit [of f tz s] assms(1) show ?thesis by simp
qed

lemma trim_ex: "trim '' mil '' = ''mil''"
  by code_simp

lemma like_ex: "like ''%mil%'' ''Milk''"
  by code_simp

lemma getAll_ex:
  "getAllTransactions utcZone exampleDb exampleFilters =
     [\<lparr>paymentMethod = gpay, categoryId = 3, amount = 100, reason = Some ''Milk'',
       timestamp = 1000, id_t = ''t1'', categoryName = ''Groceries''\<rparr>]"
  by (simp add: getAllTransactions_def exampleFilters_def joinedTransactions_def
      joinCategory_def example_defs whereClauses_def startDateClause_def endDateClause_def
      paymentMethodClause_def categoryClause_def searchTextClause_def setHours_def msPerDay_def
      utcZone_def trim_ex like_ex del: like.simps)






































lemma count_pos_iff:
  "0 < length (filter (\<lambda>c. id_c c = i) (categories s)) \<longleftrightarrow> selectCategory s i \<noteq> None"
  by (auto simp: selectCategory_def find_None_iff filter_empty_conv)

lemma deleteCategory_iff:
  "snd (deleteCategory s i) \<longleftrightarrow>
     selectCategory s i \<noteq> None \<and> \<not> list_ex (\<lambda>t. categoryId t = i) (transactions s)"
proof (cases "selectCategory s i \<noteq> None \<and> list_ex (\<lambda>t. categoryId t = i) (transactions s)")
  case True
  then show ?thesis by (simp add: deleteCategory_def deleteCategory_body_def)
next
  case False
  then have "deleteCategory_body s i =
      Inr (s\<lparr>categories := filter (\<lambda>c. id_c c \<noteq> i) (categories s)\<rparr>,
           length (filter (\<lambda>c. id_c c = i) (categories s)))"
    by (simp only: deleteCategory_body_def if_False)
  then have "snd (deleteCategory s i) \<longleftrightarrow> 0 < length (filter (\<lambda>c. id_c c = i) (categories s))"
    by (simp add: deleteCategory_def)
  with False show ?thesis unfolding count_pos_iff by blast
qed

lemma deleteCategory_failed: "\<not> snd (deleteCategory s i) \<Longrightarrow> fst (deleteCategory s i) = s"
  by (simp add: deleteCategory_def split: sum.splits prod.splits if_splits)

lemma updateCategory_iff:
  "snd (updateCategory s i nm lmt) \<longleftrightarrow>
     trim nm \<noteq> [] \<and> toLowerCase (trim nm) \<noteq> ''all'' \<and> selectCategory s i \<noteq> None \<and>
     \<not> list_ex (\<lambda>c. id_c c \<noteq> i \<and> name c = trim nm) (categories s)"
proof (cases "trim nm = [] \<or> toLowerCase (trim nm) = ''all''")
  case True
  then show ?thesis by (auto simp: updateCategory_def updateCategory_body_def Let_def)
next
  case False
  note ok = False
  show ?thesis
  proof (cases "selectCategory s i \<noteq> None \<and>
      list_ex (\<lambda>c. id_c c \<noteq> i \<and> name c = trim nm) (categories s)")
    case True
    with ok show ?thesis by (simp add: updateCategory_def updateCategory_body_def Let_def)
  next
    case False
    with ok have "updateCategory_body s i nm lmt =
        Inr (s\<lparr>categories :=
               map (\<lambda>c. if id_c c = i then c\<lparr>name := trim nm, monthlyLimit := lmt\<rparr> else c)
                 (categories s)\<rparr>,
             length (filter (\<lambda>c. id_c c = i) (categories s)))"
      by (auto simp: updateCategory_body_def Let_def)
    then have "snd (updateCategory s i nm lmt) \<longleftrightarrow>
        0 < length (filter (\<lambda>c. id_c c = i) (categories s))"
      by (simp add: updateCategory_def)
    with ok False show ?thesis unfolding count_pos_iff by blast
  qed
qed

lemma updateCategory_failed:
  "\<not> snd (updateCategory s i nm lmt) \<Longrightarrow> fst (updateCategory s i nm lmt) = s"
proof (cases "updateCategory_body s i nm lmt")
  case (Inl e)
  then show ?thesis by (simp add: updateCategory_def)
next
  case (Inr p)
  assume f: "\<not> snd (updateCategory s i nm lmt)"
  obtain s' n where p: "p = (s', n)" by (cases p)
  with Inr f have n: "n = 0" by (simp add: updateCategory_def)
  from Inr p have s': "s' = s\<lparr>categories :=
      map (\<lambda>c. if id_c c = i then c\<lparr>name := trim nm, monthlyLimit := lmt\<rparr> else c) (categories s)\<rparr>"
    and cnt: "n = length (filter (\<lambda>c. id_c c = i) (categories s))"
    by (auto simp: updateCategory_body_def Let_def split: if_splits)
  from n cnt have "\<forall>c \<in> set (categories s). id_c c \<noteq> i"
    by (simp add: filter_empty_conv)
  then have "map (\<lambda>c. if id_c c = i then c\<lparr>name := trim nm, monthlyLimit := lmt\<rparr> else c)
      (categories s) = categories s"
    by (simp add: map_idI)
  with s' have "s' = s" by simp
  with Inr p show ?thesis by (simp add: updateCategory_def)
qed

lemma isDefault_Gain: "isDefaultCategory \<lparr>id_c = 2, name = ''Gain'', monthlyLimit = None\<rparr>"
  by code_simp

lemma trim_Income: "trim ''Income'' = ''Income''"
  by code_simp

lemma trim_Bills: "trim ''Bills'' = ''Bills''"
  by code_simp

lemma trim_no_break_space: "trim (map char_of [0xC2, 0xA0 :: nat]) = []"
  by code_simp

lemma lower_Income: "toLowerCase ''Income'' \<noteq> ''all''"
  by (simp add: toLowerCase_def)

section \<open>Facts about rounding\<close>













text \<open>
  The scenario of the specification, run on the model: balances 1000 and 500; an expense of
  200 in "Groceries" gives 800; a gain of 300 gives 1100; deleting the expense gives 1300;
  updating the gain to the amount 100 gives 1100.
\<close>

lemma specification_scenario:
  fixes s0 s1 s2 s3 s4 :: db
  defines "s0 \<equiv> fst (updateBalance (fst (updateBalance initialDb gpay 1000)) cash 500)"
      and "s1 \<equiv> fst (addTransaction s0
                  \<lparr>paymentMethod = gpay, categoryId = 3, amount = 200, reason = None\<rparr> ''a'' 10)"
      and "s2 \<equiv> fst (addTransaction s1
                  \<lparr>paymentMethod = gpay, categoryId = 2, amount = 300, reason = None\<rparr> ''b'' 20)"
      and "s3 \<equiv> fst (deleteTransaction s2 ''a'')"
      and "s4 \<equiv> fst (updateTransaction s3 ''b''
                  \<lparr>paymentMethod = gpay, categoryId = 2, amount = 100, reason = None\<rparr> 30)"
  shows "getBalance s0 gpay = 1000 \<and> getBalance s0 cash = 500 \<and> getBalance s1 gpay = 800 \<and>
         getBalance s2 gpay = 1100 \<and> getBalance s3 gpay = 1300 \<and> getBalance s4 gpay = 1100 \<and>
         getBalance s4 cash = 500"
  unfolding s0_def s1_def s2_def s3_def s4_def
  by (simp add: initialDb_def DEFAULT_CATEGORIES_def updateBalance_def addTransaction_def
      addTransaction_body_def updateTransaction_def updateTransaction_body_def
      deleteTransaction_def deleteTransaction_body_def selectCategoryName_def selectCategory_def
      selectTransaction_def updateBalanceRow_def currentBalanceOf_def insertTransaction_def
      deleteTransactionRow_def updateTransactionRow_def selectTransactionWithCategory_def
      wasGainOf_def setTransaction_def reasonOrNull_def getBalance_def isGainName_Gain
      not_isGainName_defaults Let_def)

section \<open>The claims\<close>













text \<open>
  Claim C9. For an id that no transaction has, and any payload, \<^verbatim>\<open>updateTransaction\<close>
  returns false and the database (every balance and every transaction row) is unchanged.
\<close>

theorem updateTransaction_unknown_id:
  assumes "i \<notin> set (map id_t (transactions s))"
  shows "updateTransaction s i d now = (s, False)"
proof -
  from assms have "selectTransaction s i = None"
    by (auto simp: selectTransaction_def find_None_iff)
  then show ?thesis
    by (simp add: updateTransaction_def updateTransaction_body_def)
qed

theorem updateTransaction_unknown_id_witness:
  "''t9'' \<notin> set (map id_t (transactions exampleDb)) \<and>
   updateTransaction exampleDb ''t9''
     \<lparr>paymentMethod = cash, categoryId = 2, amount = 7, reason = None\<rparr> 4000 = (exampleDb, False)"
proof -
  have h: "''t9'' \<notin> set (map id_t (transactions exampleDb))"
    by (simp add: example_defs)
  from updateTransaction_unknown_id [OF h] h show ?thesis by simp
qed

text \<open>
  Claim C2, as amended. \<^verbatim>\<open>deleteCategory\<close> succeeds exactly when the category exists
  and no transaction references it, and \<^verbatim>\<open>updateCategory\<close> succeeds exactly when the
  trimmed name is neither empty nor "all", the category exists and no other category has the
  name; a call that fails leaves the database as it was. Neither function looks at whether
  the category is "Uncategorized" or "Gain". Those two are protected by the screen:
  \<^verbatim>\<open>handleDelete\<close> and \<^verbatim>\<open>openEditModal\<close> return, without calling the database,
  for a category whose name is "uncategorized" or "gain" in any case.
\<close>

theorem reserved_categories_guarded_by_screen:
  "(snd (deleteCategory s i) \<longleftrightarrow>
      selectCategory s i \<noteq> None \<and> \<not> list_ex (\<lambda>t. categoryId t = i) (transactions s)) \<and>
   (snd (updateCategory s i nm lmt) \<longleftrightarrow>
      trim nm \<noteq> [] \<and> toLowerCase (trim nm) \<noteq> ''all'' \<and> selectCategory s i \<noteq> None \<and>
      \<not> list_ex (\<lambda>c. id_c c \<noteq> i \<and> name c = trim nm) (categories s)) \<and>
   (\<not> snd (deleteCategory s i) \<longrightarrow> fst (deleteCategory s i) = s) \<and>
   (\<not> snd (updateCategory s i nm lmt) \<longrightarrow> fst (updateCategory s i nm lmt) = s) \<and>
   (isDefaultCategory c \<longrightarrow> handleDelete s c confirmed = s \<and> openEditModal ui c = ui)"
  using deleteCategory_iff [of s i] updateCategory_iff [of s i nm lmt]
    deleteCategory_failed [of s i] updateCategory_failed [of s i nm lmt]
  by (simp add: handleDelete_def openEditModal_def)

theorem reserved_categories_guarded_by_screen_witness:
  "isDefaultCategory \<lparr>id_c = 2, name = ''Gain'', monthlyLimit = None\<rparr> \<and>
   handleDelete exampleDb \<lparr>id_c = 2, name = ''Gain'', monthlyLimit = None\<rparr> True = exampleDb \<and>
   openEditModal \<lparr>editingCategory = None, isModalVisible = False\<rparr>
     \<lparr>id_c = 2, name = ''Gain'', monthlyLimit = None\<rparr> =
     \<lparr>editingCategory = None, isModalVisible = False\<rparr> \<and>
   \<not> snd (deleteCategory exampleDb 2) \<and> fst (deleteCategory exampleDb 2) = exampleDb \<and>
   \<not> snd (updateCategory exampleDb 3 ''Bills'' None) \<and>
   fst (updateCategory exampleDb 3 ''Bills'' None) = exampleDb \<and>
   snd (updateCategory exampleDb 2 ''Income'' None) \<and>
   \<not> snd (updateCategory exampleDb 3 (map char_of [0xC2, 0xA0 :: nat]) None)"
proof -
  note th = reserved_categories_guarded_by_screen
  have u3: "\<not> snd (updateCategory exampleDb 3 (map char_of [0xC2, 0xA0 :: nat]) None)"
    using th [of exampleDb 3 "map char_of [0xC2, 0xA0 :: nat]"]
    unfolding trim_no_break_space by simp
  have d: "\<not> snd (deleteCategory exampleDb 2)"
    using th [of exampleDb 2] by (simp add: example_defs)
  have u: "\<not> snd (updateCategory exampleDb 3 ''Bills'' None)"
    using th [of exampleDb 3 "''Bills''"]
    by (simp add: example_defs trim_Bills)
  have u2: "snd (updateCategory exampleDb 2 ''Income'' None)"
    using th [of exampleDb 2 "''Income''"]
    by (simp add: example_defs trim_Income lower_Income)
  from th [of exampleDb 2 "''Income''" None "\<lparr>id_c = 2, name = ''Gain'', monthlyLimit = None\<rparr>"
      True "\<lparr>editingCategory = None, isModalVisible = False\<rparr>"] isDefault_Gain d
  have g: "handleDelete exampleDb \<lparr>id_c = 2, name = ''Gain'', monthlyLimit = None\<rparr> True
             = exampleDb"
    "openEditModal \<lparr>editingCategory = None, isModalVisible = False\<rparr>
     \<lparr>id_c = 2, name = ''Gain'', monthlyLimit = None\<rparr> =
     \<lparr>editingCategory = None, isModalVisible = False\<rparr>"
    "fst (deleteCategory exampleDb 2) = exampleDb"
    by blast+
  from th [of exampleDb 3 "''Bills''" None] u
  have g2: "fst (updateCategory exampleDb 3 ''Bills'' None) = exampleDb" by blast
  from isDefault_Gain g d u g2 u2 u3 show ?thesis by (intro conjI)
qed

text \<open>
  The claim as first stated (on a reserved category, \<^verbatim>\<open>updateCategory\<close> with a
  changed name and \<^verbatim>\<open>deleteCategory\<close> always fail) does not hold of the two database
  functions: right after initialisation, "Gain" is renamed to "Income", and "Gain" is
  deleted.
\<close>

theorem reserved_category_counterexample:
  "selectCategoryName initialDb 2 = Some ''Gain'' \<and>
   snd (updateCategory initialDb 2 ''Income'' None) \<and>
   selectCategoryName (fst (updateCategory initialDb 2 ''Income'' None)) 2 = Some ''Income'' \<and>
   snd (deleteCategory initialDb 2) \<and>
   selectCategory (fst (deleteCategory initialDb 2)) 2 = None"
  by (simp add: updateCategory_def updateCategory_body_def deleteCategory_def
      deleteCategory_body_def initialDb_def DEFAULT_CATEGORIES_def selectCategoryName_def
      selectCategory_def trim_Income lower_Income Let_def)

text \<open>
  Claim C7. The rows that \<^verbatim>\<open>getAllTransactions\<close> returns are ordered by
  timestamp, newest first. Every returned row is a transaction joined with the name of its
  category and meets every filter that was supplied (start date, end date, payment method,
  category, search text): the filters are conjoined. With the category filter "Groceries"
  every returned row has the category name "Groceries"; with start and end date \<open>D\<close>
  every returned timestamp lies between 00:00:00.000 and 23:59:59.999 of the local day of
  \<open>D\<close>, in whatever time zone the runtime has. Without a limit (and without
  the year/month fallback, which applies only when no end date is given) the rows returned
  are exactly the joined rows that meet the filters.
\<close>

theorem getAllTransactions_ordered_and_filtered:
  "sorted_wrt (\<lambda>a b. timestamp b \<le> timestamp a) (getAllTransactions tz s f) \<and>
   (\<forall>r \<in> set (getAllTransactions tz s f).
      r \<in> set (joinedTransactions s) \<and>
      selectCategoryName s (categoryId r) = Some (categoryName r) \<and>
      matchesFilters tz f r) \<and>
   (category f = Some ''Groceries'' \<longrightarrow>
      (\<forall>r \<in> set (getAllTransactions tz s f). categoryName r = ''Groceries'')) \<and>
   (\<forall>D. startDate f = Some D \<and> endDate f = Some D \<longrightarrow>
      (\<forall>r \<in> set (getAllTransactions tz s f).
         setHours tz D 0 0 0 0 \<le> timestamp r \<and> timestamp r \<le> setHours tz D 23 59 59 999)) \<and>
   (limit f = None \<and> (year f = None \<or> month f = None \<or> endDate f \<noteq> None) \<longrightarrow>
      set (getAllTransactions tz s f) =
        {r \<in> set (joinedTransactions s). matchesFilters tz f r})"
proof (intro conjI ballI allI impI)
  show "sorted_wrt (\<lambda>a b. timestamp b \<le> timestamp a) (getAllTransactions tz s f)"
    by (rule sorted_getAllTransactions)
next
  fix r assume "r \<in> set (getAllTransactions tz s f)"
  from getAllTransactions_sound [OF this]
  show "r \<in> set (joinedTransactions s)"
    and "selectCategoryName s (categoryId r) = Some (categoryName r)"
    and "matchesFilters tz f r" by simp_all
next
  fix r assume "category f = Some ''Groceries''" and "r \<in> set (getAllTransactions tz s f)"
  with getAllTransactions_sound [of r tz s f]
  show "categoryName r = ''Groceries''" by (simp add: matchesFilters_def)
next
  fix D r
  assume "startDate f = Some D \<and> endDate f = Some D" and "r \<in> set (getAllTransactions tz s f)"
  with getAllTransactions_sound [of r tz s f]
  show "setHours tz D 0 0 0 0 \<le> timestamp r" and "timestamp r \<le> setHours tz D 23 59 59 999"
    by (simp_all add: matchesFilters_def)
next
  assume "limit f = None \<and> (year f = None \<or> month f = None \<or> endDate f \<noteq> None)"
  then show "set (getAllTransactions tz s f) =
        {r \<in> set (joinedTransactions s). matchesFilters tz f r}"
    using getAllTransactions_complete [of f tz s] by blast
qed

theorem getAllTransactions_ordered_and_filtered_witness:
  "category exampleFilters = Some ''Groceries'' \<and>
   startDate exampleFilters = Some 5000 \<and> endDate exampleFilters = Some 5000 \<and>
   limit exampleFilters = None \<and>
   getAllTransactions utcZone exampleDb exampleFilters =
     [\<lparr>paymentMethod = gpay, categoryId = 3, amount = 100, reason = Some ''Milk'',
       timestamp = 1000, id_t = ''t1'', categoryName = ''Groceries''\<rparr>] \<and>
   setHours utcZone 5000 0 0 0 0 = 0 \<and> setHours utcZone 5000 23 59 59 999 = 86399999 \<and>
   setHours newYorkZone 1710090000000 0 0 0 0 = 1710046800000 \<and>
   setHours newYorkZone 1710090000000 23 59 59 999 = 1710129599999 \<and>
   set (getAllTransactions utcZone exampleDb exampleFilters) =
     {r \<in> set (joinedTransactions exampleDb). matchesFilters utcZone exampleFilters r}"
proof -
  have f: "category exampleFilters = Some ''Groceries''"
    "startDate exampleFilters = Some 5000" "endDate exampleFilters = Some 5000"
    "limit exampleFilters = None"
    by (simp_all add: exampleFilters_def)
  have d: "setHours utcZone 5000 0 0 0 0 = 0" "setHours utcZone 5000 23 59 59 999 = 86399999"
    "setHours newYorkZone 1710090000000 0 0 0 0 = 1710046800000"
    "setHours newYorkZone 1710090000000 23 59 59 999 = 1710129599999"
    by (simp_all add: setHours_def msPerDay_def utcZone_def newYorkZone_def)
  have y: "limit exampleFilters = None \<and>
      (year exampleFilters = None \<or> month exampleFilters = None \<or> endDate exampleFilters \<noteq> None)"
    by (simp add: exampleFilters_def)
  from getAllTransactions_ordered_and_filtered [of utcZone exampleDb exampleFilters]
  have "limit exampleFilters = None \<and>
      (year exampleFilters = None \<or> month exampleFilters = None \<or> endDate exampleFilters \<noteq> None)
     \<longrightarrow> set (getAllTransactions utcZone exampleDb exampleFilters) =
     {r \<in> set (joinedTransactions exampleDb). matchesFilters utcZone exampleFilters r}"
    by (elim conjE)
  with y have "set (getAllTransactions utcZone exampleDb exampleFilters) =
     {r \<in> set (joinedTransactions exampleDb). matchesFilters utcZone exampleFilters r}"
    by (rule rev_mp)
  with f d getAll_ex show ?thesis by (intro conjI)
qed



text \<open>
  Claim C10. When the limit is absent, zero or negative, \<^verbatim>\<open>getAllTransactions\<close>
  returns the same list as the call without the limit field: all the rows that match the
  other filters, with no cap on their number.
\<close>

theorem getAllTransactions_unlimited:
  assumes "limit f = None \<or> (\<exists>n. limit f = Some n \<and> n \<le> 0)"
  shows "getAllTransactions tz s f = getAllTransactions tz s (f\<lparr>limit := None\<rparr>) \<and>
         set (getAllTransactions tz s f) =
           {r \<in> set (joinedTransactions s). list_all (\<lambda>p. p r) (whereClauses tz f)} \<and>
         length (getAllTransactions tz s f) =
           length (filter (\<lambda>r. list_all (\<lambda>p. p r) (whereClauses tz f)) (joinedTransactions s))"
  using assms by (auto simp: getAllTransactions_def Let_def split: option.splits)

theorem getAllTransactions_unlimited_witness:
  "limit (exampleFilters\<lparr>limit := Some (- 1)\<rparr>) = Some (- 1) \<and>
   getAllTransactions utcZone exampleDb (exampleFilters\<lparr>limit := Some (- 1)\<rparr>) =
     getAllTransactions utcZone exampleDb exampleFilters \<and>
   length (getAllTransactions utcZone exampleDb (exampleFilters\<lparr>limit := Some (- 1)\<rparr>)) = 1"
proof -
  have h: "limit (exampleFilters\<lparr>limit := Some (- 1)\<rparr>) = None \<or>
      (\<exists>n. limit (exampleFilters\<lparr>limit := Some (- 1)\<rparr>) = Some n \<and> n \<le> 0)"
    by simp
  have e: "exampleFilters\<lparr>limit := Some (- 1), limit := None\<rparr> = exampleFilters"
    by (simp add: exampleFilters_def)
  from getAllTransactions_unlimited [OF h, of utcZone exampleDb, THEN conjunct1]
  have eq: "getAllTransactions utcZone exampleDb (exampleFilters\<lparr>limit := Some (- 1)\<rparr>) =
     getAllTransactions utcZone exampleDb exampleFilters"
    by (simp only: e)
  have l: "limit (exampleFilters\<lparr>limit := Some (- 1)\<rparr>) = Some (- 1)" by simp
  have n: "length (getAllTransactions utcZone exampleDb (exampleFilters\<lparr>limit := Some (- 1)\<rparr>)) = 1"
    by (simp only: eq getAll_ex) simp
  from l eq n show ?thesis by (intro conjI)
qed

end
